theory Spec2Isabelle
  imports Main
begin

section \<open>The template factory and the daemon's factory selection\<close>

text \<open>
  A shallow embedding of \<^verbatim>\<open>factory/template/template.go\<close> (package \<^verbatim>\<open>template\<close>:
  \<^verbatim>\<open>New\<close>, \<^verbatim>\<open>NewFromExisted\<close>, \<^verbatim>\<open>Config\<close>, \<^verbatim>\<open>GetBaseVm\<close>, \<^verbatim>\<open>CloseFactory\<close>) and of the
  start of \<^verbatim>\<open>ContainerdCommand.Action\<close> (package \<^verbatim>\<open>containerd\<close>, lines 59-116: from
  reading the flags to the choice of the factory).

  Go's \<^verbatim>\<open>error\<close> values are messages; a \<^verbatim>\<open>*T\<close> is a \<open>T option\<close> with \<open>None\<close> for
  \<^verbatim>\<open>nil\<close>; \<^verbatim>\<open>cpu\<close> and \<^verbatim>\<open>mem\<close> are only passed on, never computed with, so they are
  \<open>int\<close>. Everything the code does to the machine is explicit: the functions take
  the \<open>world\<close> and return the new one.
\<close>

subsection \<open>Data\<close>

datatype error = Error (errmsg: string)

text \<open>
  Modelled from the spec: the declaration of \<^verbatim>\<open>template.TemplateVmConfig\<close> is not under
  src/. The daemon reads its fields \<^verbatim>\<open>Driver\<close>, \<^verbatim>\<open>Kernel\<close> and \<^verbatim>\<open>Initrd\<close>
  (part_000, lines 91-97); the spec's data model adds the root path, the name and the
  sizing of the template's BootConfig.
\<close>

record TemplateVmConfig =
  Root :: string
  Name :: string
  Driver :: string
  Kernel :: string
  Initrd :: string
  Cpu :: int
  Memory :: int

text \<open>
  Modelled from the spec: \<^verbatim>\<open>hypervisor.BootConfig\<close> is not under src/. The spec gives it
  as the value \<^verbatim>\<open>{kernelPath, initrdPath, driverName, cpuCount, memoryMB, biosPath?,
  cbfsPath?}\<close>.
\<close>

record BootConfig =
  kernelPath :: string
  initrdPath :: string
  driverName :: string
  cpuCount :: int
  memoryMB :: int
  biosPath :: "string option"
  cbfsPath :: "string option"

text \<open>
  What \<^verbatim>\<open>os.Stat\<close> answers for a path: no error, an error that \<^verbatim>\<open>os.IsNotExist\<close>
  recognises (ENOENT), or any other error (EACCES, ENOTDIR, ...).
\<close>

datatype stat_result = StatOK | ErrNotExist | ErrOther

text \<open>
  The part of the machine the code under src/ touches: the paths that have a directory
  entry (a file, a directory or a symbolic link, whether its target exists or not),
  what \<^verbatim>\<open>os.Stat\<close>, which follows symbolic links, answers for a path, the bytes the
  random source will deliver and how many of them were consumed, and the lines written
  to the log. The hypervisor's own state rides in the record's extension.
\<close>

record world =
  entries :: "string set"
  fsys :: "string \<Rightarrow> stat_result"
  rnd :: "nat \<Rightarrow> nat"
  rpos :: nat
  glog :: "string list"

text \<open>
  What a method returns: a value, a Go \<^verbatim>\<open>error\<close>, or the panic of a nil dereference.
\<close>

datatype 'a result = Ok 'a | Failed error | NilDeref

text \<open>
  The operations of the repository's \<^verbatim>\<open>template\<close> package that the code under src/
  calls and that are not under src/ themselves, as parameters: the function
  \<^verbatim>\<open>CreateTemplateVM\<close>, which returns Go's pair \<^verbatim>\<open>(s, err)\<close>, and the three methods of
  \<^verbatim>\<open>*TemplateVmConfig\<close>. A method with a pointer receiver may write to the descriptor,
  so the two methods that act on the machine return the descriptor as they leave it.
\<close>

record ('a, 'vm) template_pkg =
  CreateTemplateVM :: "string \<Rightarrow> string \<Rightarrow> int \<Rightarrow> int \<Rightarrow> string \<Rightarrow> string \<Rightarrow> string \<Rightarrow> string
    \<Rightarrow> 'a world_scheme \<Rightarrow> (TemplateVmConfig option \<times> error option) \<times> 'a world_scheme"
  BootConfigFromTemplate :: "TemplateVmConfig option \<Rightarrow> BootConfig result"
  NewVmFromTemplate :: "TemplateVmConfig option \<Rightarrow> string \<Rightarrow> 'a world_scheme
    \<Rightarrow> 'vm result \<times> TemplateVmConfig option \<times> 'a world_scheme"
  Destroy :: "TemplateVmConfig option \<Rightarrow> 'a world_scheme
    \<Rightarrow> unit result \<times> TemplateVmConfig option \<times> 'a world_scheme"

text \<open>
  The primitives of the hypervisor driver, from the spec's external interfaces:
  \<^verbatim>\<open>Driver.cloneFromTemplate(TemplateState) -> VM | error\<close> and
  \<^verbatim>\<open>Driver.destroyTemplate(TemplateState)\<close>, whose failure is the spec's
  ResourceReleaseError.
\<close>

record ('a, 'vm) Driver =
  cloneFromTemplate :: "TemplateVmConfig \<Rightarrow> string \<Rightarrow> 'a world_scheme
    \<Rightarrow> (error + 'vm) \<times> 'a world_scheme"
  destroyTemplate :: "TemplateVmConfig \<Rightarrow> 'a world_scheme \<Rightarrow> error option \<times> 'a world_scheme"

text \<open>\<^verbatim>\<open>type templateFactory struct { s *template.TemplateVmConfig }\<close>\<close>

record templateFactory =
  tf_s :: "TemplateVmConfig option"

text \<open>
  \<^verbatim>\<open>base.Factory\<close> is an interface. Its values are the template factory of this file
  and the results of the constructors of the sibling packages, which are not under
  src/ and are kept as the calls that built them: \<^verbatim>\<open>direct.New(cpu, mem, kernel,
  initrd)\<close>, \<^verbatim>\<open>singlefactory.New(f)\<close> and \<^verbatim>\<open>factory.NewFromConfigs(kernel, initrd, nil)\<close>.
\<close>

datatype Factory =
    Template templateFactory
  | direct_New int int string string
  | single_New Factory
  | factory_NewFromConfigs string string

subsection \<open>Picking the template's name (template.go, lines 22-27)\<close>

text \<open>
  Modelled from the spec: \<^verbatim>\<open>pod.RandStr\<close> is not under src/. The spec: a random
  alphanumeric identifier of fixed length. The function reads \<open>strSize\<close> bytes from the
  random source and turns each into the character of a dictionary that stands at the
  byte's value modulo the dictionary's length. The dictionary is chosen by the kind
  asked for: \<^verbatim>\<open>"alpha"\<close>, the kind line 23 asks for, is the 52 letters, capitals first;
  \<^verbatim>\<open>"alphanum"\<close> has the ten digits in front of them; \<^verbatim>\<open>"number"\<close> is the digits. Any
  other kind leaves the dictionary empty, and the division by its length panics:
  \<open>None\<close>.
\<close>

definition dictionary :: "string \<Rightarrow> string" where
  "dictionary randType =
     (if randType = ''alphanum''
      then ''0123456789ABCDEFGHIJKLMNOPQRSTUVWXYZabcdefghijklmnopqrstuvwxyz''
      else if randType = ''alpha''
      then ''ABCDEFGHIJKLMNOPQRSTUVWXYZabcdefghijklmnopqrstuvwxyz''
      else if randType = ''number'' then ''0123456789''
      else '''')"

definition RandStr ::
  "nat \<Rightarrow> string \<Rightarrow> 'a world_scheme \<Rightarrow> string option \<times> 'a world_scheme" where
  "RandStr strSize randType w =
     (let dict = dictionary randType; w' = w\<lparr>rpos := rpos w + strSize\<rparr> in
      if 0 < strSize \<and> dict = [] then (None, w')
      else (Some (map (\<lambda>k. dict ! (rnd w (rpos w + k) mod 256 mod length dict)) [0..<strSize]),
            w'))"

definition Stat :: "'a world_scheme \<Rightarrow> string \<Rightarrow> stat_result" where
  "Stat w path = fsys w path"

definition IsNotExist :: "stat_result \<Rightarrow> bool" where
  "IsNotExist err = (err = ErrNotExist)"

text \<open>
  Line 23: \<^verbatim>\<open>vmName = fmt.Sprintf("template-vm-%s", pod.RandStr(10, "alpha"))\<close>;
  \<open>None\<close> where \<^verbatim>\<open>RandStr\<close> panics.
\<close>

definition candidate :: "'a world_scheme \<Rightarrow> (string \<times> 'a world_scheme) option" where
  "candidate w =
     (case RandStr 10 ''alpha'' w of
        (None, w') \<Rightarrow> None
      | (Some ident, w') \<Rightarrow> Some (''template-vm-'' @ ident, w'))"

text \<open>\<^verbatim>\<open>templateRoot + "/" + vmName\<close>, as lines 24 and 29 build it.\<close>

definition candidatePath :: "string \<Rightarrow> string \<Rightarrow> string" where
  "candidatePath templateRoot vmName = templateRoot @ ''/'' @ vmName"

text \<open>
  The loop \<^verbatim>\<open>for { ...; if _, err := os.Stat(...); os.IsNotExist(err) { break } }\<close>.
  It has no bound, so it is a partial function: \<open>None\<close> is the loop that never leaves.
  (A panic of \<^verbatim>\<open>RandStr\<close> would not come back from the loop either; with the kind
  \<^verbatim>\<open>"alpha"\<close> there is none, see \<open>candidate_Some\<close> below.)
\<close>

partial_function (option) pickVmName ::
  "string \<Rightarrow> 'a world_scheme \<Rightarrow> (string \<times> 'a world_scheme) option" where
  "pickVmName templateRoot w =
     (case candidate w of
        None \<Rightarrow> None
      | Some (vmName, w') \<Rightarrow>
          if IsNotExist (Stat w' (candidatePath templateRoot vmName)) then Some (vmName, w')
          else pickVmName templateRoot w')"

text \<open>
  The state before the candidate number \<open>k\<close> is drawn (each candidate takes 10 bytes of
  the random source), and whether that candidate's path is reported as not existing
  (the loop leaves at the first such \<open>k\<close>).
\<close>

definition drawn :: "nat \<Rightarrow> 'a world_scheme \<Rightarrow> 'a world_scheme" where
  "drawn k w = w\<lparr>rpos := rpos w + 10 * k\<rparr>"

definition freeAt :: "string \<Rightarrow> 'a world_scheme \<Rightarrow> nat \<Rightarrow> bool" where
  "freeAt templateRoot w k =
     (case candidate (drawn k w) of
        None \<Rightarrow> False
      | Some (vmName, w') \<Rightarrow> IsNotExist (Stat w' (candidatePath templateRoot vmName)))"

subsection \<open>The constructors (template.go, lines 19-40)\<close>

text \<open>
  \<^verbatim>\<open>New\<close>: the name loop, then \<^verbatim>\<open>CreateTemplateVM\<close> with empty \<^verbatim>\<open>bios\<close> and \<^verbatim>\<open>cbfs\<close>;
  on an error two log lines and the direct factory, else the template factory.
  \<open>None\<close> only when the name loop never leaves. (The parameter \<^verbatim>\<open>kernel\<close> is
  written \<open>kern\<close>: HOL has a constant of that name.)
\<close>

definition New ::
  "('a, 'vm) template_pkg \<Rightarrow> string \<Rightarrow> int \<Rightarrow> int \<Rightarrow> string \<Rightarrow> string \<Rightarrow> 'a world_scheme
     \<Rightarrow> (Factory \<times> 'a world_scheme) option" where
  "New pkg templateRoot cpu mem kern initrd w =
     (case pickVmName templateRoot w of
        None \<Rightarrow> None
      | Some (vmName, w1) \<Rightarrow>
          (let bios = ''''; cbfs = '''' in
           case CreateTemplateVM pkg (candidatePath templateRoot vmName) vmName cpu mem
                  kern initrd bios cbfs w1 of
             ((sp, err), w2) \<Rightarrow>
               (case err of
                  Some e \<Rightarrow>
                    Some (direct_New cpu mem kern initrd,
                          w2\<lparr>glog := glog w2 @
                            [''failed to create template factory: '' @ errmsg e,
                             ''use direct factory instead'']\<rparr>)
                | None \<Rightarrow> Some (Template \<lparr>tf_s = sp\<rparr>, w2))))"

definition NewFromExisted :: "TemplateVmConfig option \<Rightarrow> Factory" where
  "NewFromExisted sp = Template \<lparr>tf_s = sp\<rparr>"

subsection \<open>The methods (template.go, lines 42-52)\<close>

text \<open>
  \<^verbatim>\<open>func (t *templateFactory) Config() *hypervisor.BootConfig\<close>: the call
  \<^verbatim>\<open>t.s.BootConfigFromTemplate()\<close>.
\<close>

definition Config :: "('a, 'vm) template_pkg \<Rightarrow> templateFactory \<Rightarrow> BootConfig result" where
  "Config pkg t = BootConfigFromTemplate pkg (tf_s t)"

text \<open>
  \<^verbatim>\<open>func (t *templateFactory) GetBaseVm() (*hypervisor.Vm, error)\<close>: the call
  \<^verbatim>\<open>t.s.NewVmFromTemplate("")\<close> and nothing else. The factory is returned as the call
  leaves it.
\<close>

definition GetBaseVm ::
  "('a, 'vm) template_pkg \<Rightarrow> templateFactory \<Rightarrow> 'a world_scheme
     \<Rightarrow> 'vm result \<times> templateFactory \<times> 'a world_scheme" where
  "GetBaseVm pkg t w =
     (case NewVmFromTemplate pkg (tf_s t) '''' w of
        (r, sp', w') \<Rightarrow> (r, t\<lparr>tf_s := sp'\<rparr>, w'))"

text \<open>\<^verbatim>\<open>func (t *templateFactory) CloseFactory()\<close>: the call \<^verbatim>\<open>t.s.Destroy()\<close>.\<close>

definition CloseFactory ::
  "('a, 'vm) template_pkg \<Rightarrow> templateFactory \<Rightarrow> 'a world_scheme
     \<Rightarrow> unit result \<times> templateFactory \<times> 'a world_scheme" where
  "CloseFactory pkg t w =
     (case Destroy pkg (tf_s t) w of
        (r, sp', w') \<Rightarrow> (r, t\<lparr>tf_s := sp'\<rparr>, w'))"

subsection \<open>The methods of the descriptor, from the spec\<close>

text \<open>
  Modelled from the spec: \<^verbatim>\<open>TemplateVmConfig.BootConfigFromTemplate\<close> is not under src/.
  The spec: \<^verbatim>\<open>Config()\<close> derives a BootConfig from the Template VM Config, with the
  same kernel, initrd, driver and sizing as the template, and is free of side effects.
  Reading the fields of a nil descriptor panics.
\<close>

definition spec_BootConfigFromTemplate :: "TemplateVmConfig option \<Rightarrow> BootConfig result" where
  "spec_BootConfigFromTemplate sp =
     (case sp of
        None \<Rightarrow> NilDeref
      | Some c \<Rightarrow>
          Ok \<lparr>kernelPath = Kernel c, initrdPath = Initrd c, driverName = Driver c,
              cpuCount = Cpu c, memoryMB = Memory c, biosPath = None, cbfsPath = None\<rparr>)"

text \<open>
  Modelled from the spec: \<^verbatim>\<open>TemplateVmConfig.NewVmFromTemplate\<close> is not under src/. The
  spec: the new VM is cloned from the template's preserved state by the hypervisor
  driver, a black box, and a failure of the clone is the error of the call. The
  descriptor is left as it was: the configuration is immutable after construction.
\<close>

definition spec_NewVmFromTemplate ::
  "('a, 'vm) Driver \<Rightarrow> TemplateVmConfig option \<Rightarrow> string \<Rightarrow> 'a world_scheme
     \<Rightarrow> 'vm result \<times> TemplateVmConfig option \<times> 'a world_scheme" where
  "spec_NewVmFromTemplate drv sp vmName w =
     (case sp of
        None \<Rightarrow> (NilDeref, sp, w)
      | Some c \<Rightarrow>
          (case cloneFromTemplate drv c vmName w of
             (Inl e, w') \<Rightarrow> (Failed e, sp, w')
           | (Inr vm, w') \<Rightarrow> (Ok vm, sp, w')))"

text \<open>
  Modelled from the spec: \<^verbatim>\<open>TemplateVmConfig.Destroy\<close> is not under src/. The spec: it
  releases the template's backing state through the driver; a failure of the release
  is a ResourceReleaseError, which is logged and does not stop the shutdown. The
  method returns nothing.
\<close>

definition spec_Destroy ::
  "('a, 'vm) Driver \<Rightarrow> TemplateVmConfig option \<Rightarrow> 'a world_scheme
     \<Rightarrow> unit result \<times> TemplateVmConfig option \<times> 'a world_scheme" where
  "spec_Destroy drv sp w =
     (case sp of
        None \<Rightarrow> (NilDeref, sp, w)
      | Some c \<Rightarrow>
          (case destroyTemplate drv c w of
             (None, w') \<Rightarrow> (Ok (), sp, w')
           | (Some e, w') \<Rightarrow>
               (Ok (), sp, w'\<lparr>glog := glog w' @ [''ResourceReleaseError: '' @ errmsg e]\<rparr>)))"

text \<open>
  The \<^verbatim>\<open>template\<close> package with these three methods, over a driver \<open>drv\<close>;
  \<^verbatim>\<open>CreateTemplateVM\<close> stays a parameter.
\<close>

definition spec_template ::
  "(string \<Rightarrow> string \<Rightarrow> int \<Rightarrow> int \<Rightarrow> string \<Rightarrow> string \<Rightarrow> string \<Rightarrow> string
     \<Rightarrow> 'a world_scheme \<Rightarrow> (TemplateVmConfig option \<times> error option) \<times> 'a world_scheme)
   \<Rightarrow> ('a, 'vm) Driver \<Rightarrow> ('a, 'vm) template_pkg" where
  "spec_template create drv =
     \<lparr>CreateTemplateVM = create,
      BootConfigFromTemplate = spec_BootConfigFromTemplate,
      NewVmFromTemplate = spec_NewVmFromTemplate drv,
      Destroy = spec_Destroy drv\<rparr>"

subsection \<open>The daemon's choice of a factory (part_000, lines 59-116)\<close>

text \<open>\<^verbatim>\<open>context.GlobalString(name)\<close>: the value of a global flag, empty when not given.\<close>

record cli_Context =
  GlobalString :: "string \<Rightarrow> string"

text \<open>
  Lines 78-89 read the descriptor: \<^verbatim>\<open>os.Open(filepath.Join(template, "config.json"))\<close>
  may fail, the JSON decoder may fail, and a document that decodes (the document
  \<^verbatim>\<open>null\<close> leaves the pointer \<^verbatim>\<open>tconfig\<close> nil) gives the descriptor.
\<close>

datatype load_result =
    OpenFailed error
  | DecodeFailed error
  | Decoded "TemplateVmConfig option"

text \<open>
  What the daemon consults and is not under src/: the descriptor file of a template
  directory, and \<^verbatim>\<open>driverloader.Probe\<close>, which returns the hypervisor driver or an error.
\<close>

record 'd daemon =
  loadConfig :: "string \<Rightarrow> load_result"
  Probe :: "string \<Rightarrow> error + 'd"

text \<open>What the daemon does that others can see: its log lines and the driver it probes.\<close>

datatype event = Log string | Probed string

text \<open>
  How the start ends: \<^verbatim>\<open>os.Exit(code)\<close>, the panic of the nil dereference
  \<^verbatim>\<open>tconfig.Driver\<close>, or line 117 reached with \<^verbatim>\<open>hypervisor.HDriver\<close> set and the
  factory \<^verbatim>\<open>f\<close> handed to \<^verbatim>\<open>supervisor.New\<close>.
\<close>

datatype 'd outcome = Exit int | Panic | Serve 'd Factory

text \<open>
  The action, from its first line to the choice of \<^verbatim>\<open>f\<close>. The first \<open>case\<close> is the
  block of lines 76-102, which leaves the variables \<^verbatim>\<open>driver\<close>, \<^verbatim>\<open>template\<close> and
  \<^verbatim>\<open>tconfig\<close> as the rest reads them; the rest is lines 104-116. (The flag parsing
  of lines 70-74 only configures the logger, and nothing before line 117 reads the
  counter that line 104 resets.)
\<close>

definition Action :: "'d daemon \<Rightarrow> cli_Context \<Rightarrow> event list \<times> 'd outcome" where
  "Action env ctx =
     (let driver = GlobalString ctx ''driver'';
          kern = GlobalString ctx ''kernel'';
          initrd = GlobalString ctx ''initrd'';
          template = GlobalString ctx ''template''
      in
      case
        (if template \<noteq> '''' then
           (case loadConfig env template of
              OpenFailed e \<Rightarrow>
                Inl ([Log (''open template JSON configuration file failed: '' @ errmsg e)],
                     Exit (- 1))
            | DecodeFailed e \<Rightarrow>
                Inl ([Log (''parse template JSON configuration file failed: '' @ errmsg e)],
                     Exit (- 1))
            | Decoded tconfig \<Rightarrow>
                (case tconfig of
                   None \<Rightarrow> Inl ([], Panic)
                 | Some tc \<Rightarrow>
                     if (driver \<noteq> '''' \<and> driver \<noteq> Driver tc) \<or>
                        (kern \<noteq> '''' \<and> kern \<noteq> Kernel tc) \<or>
                        (initrd \<noteq> '''' \<and> initrd \<noteq> Initrd tc)
                     then Inr ([Log ''template config is not match the driver, kernel or initrd argument, disable template''],
                               driver, '''', tconfig)
                     else if driver = '''' then Inr ([], Driver tc, template, tconfig)
                     else Inr ([], driver, template, tconfig)))
         else if kern = '''' \<or> initrd = '''' then
           Inl ([Log ''argument kernel and initrd must be set''], Exit 1)
         else Inr ([], driver, template, None))
      of
        Inl stop \<Rightarrow> stop
      | Inr (evs, driver, template, tconfig) \<Rightarrow>
          (case Probe env driver of
             Inl err \<Rightarrow> (evs @ [Probed driver, Log (errmsg err)], Exit 1)
           | Inr hdriver \<Rightarrow>
               (evs @ [Probed driver],
                Serve hdriver
                  (if template \<noteq> '''' then single_New (NewFromExisted tconfig)
                   else factory_NewFromConfigs kern initrd))))"

text \<open>
  The spec's words for the daemon's test: the descriptor's recorded driver, kernel and
  initrd match the requested ones. A flag left empty requests nothing.
\<close>

definition matches_requested :: "cli_Context \<Rightarrow> TemplateVmConfig \<Rightarrow> bool" where
  "matches_requested ctx tc =
     ((GlobalString ctx ''driver'' = '''' \<or> GlobalString ctx ''driver'' = Driver tc) \<and>
      (GlobalString ctx ''kernel'' = '''' \<or> GlobalString ctx ''kernel'' = Kernel tc) \<and>
      (GlobalString ctx ''initrd'' = '''' \<or> GlobalString ctx ''initrd'' = Initrd tc))"

subsection \<open>Example inputs\<close>

text \<open>
  A template root \<^verbatim>\<open>/t\<close> that holds one entry, \<^verbatim>\<open>template-vm-0123456789\<close>, and a random
  source that delivers the bytes 0, 1, 2, ...
\<close>

definition world_one :: world where
  "world_one =
     \<lparr>entries = {''/t/template-vm-0123456789''},
      fsys = (\<lambda>p. if p = ''/t/template-vm-0123456789'' then StatOK else ErrNotExist),
      rnd = (\<lambda>k. k), rpos = 0, glog = []\<rparr>"

text \<open>
  The same root holding the one entry \<^verbatim>\<open>template-vm-AAAAAAAAAA\<close>, the name the byte 0
  selects, and a random source that delivers the byte 0 forever.
\<close>

definition world_taken :: world where
  "world_taken =
     \<lparr>entries = {''/t/template-vm-AAAAAAAAAA''},
      fsys = (\<lambda>p. if p = ''/t/template-vm-AAAAAAAAAA'' then StatOK else ErrNotExist),
      rnd = (\<lambda>k. 0), rpos = 0, glog = []\<rparr>"

text \<open>
  The root holding the one entry \<^verbatim>\<open>template-vm-ABCDEFGHIJ\<close>, the name the bytes 0 to 9
  select: the first candidate is taken, the second, \<^verbatim>\<open>template-vm-KLMNOPQRST\<close>, is free.
\<close>

definition world_retry :: world where
  "world_retry =
     \<lparr>entries = {''/t/template-vm-ABCDEFGHIJ''},
      fsys = (\<lambda>p. if p = ''/t/template-vm-ABCDEFGHIJ'' then StatOK else ErrNotExist),
      rnd = (\<lambda>k. k), rpos = 0, glog = []\<rparr>"

text \<open>
  The root holding that entry as a symbolic link whose target is missing: the entry is
  there, and \<^verbatim>\<open>os.Stat\<close>, which follows the link, answers that the path does not exist.
\<close>

definition world_symlink :: world where
  "world_symlink =
     \<lparr>entries = {''/t/template-vm-ABCDEFGHIJ''},
      fsys = (\<lambda>p. ErrNotExist),
      rnd = (\<lambda>k. k), rpos = 0, glog = []\<rparr>"

text \<open>
  The root holding that entry, but closed to the caller (no search permission):
  \<^verbatim>\<open>os.Stat\<close> fails with EACCES for every path under it.
\<close>

definition world_denied :: world where
  "world_denied =
     \<lparr>entries = {''/t/template-vm-ABCDEFGHIJ''},
      fsys = (\<lambda>p. ErrOther),
      rnd = (\<lambda>k. k), rpos = 0, glog = []\<rparr>"

definition config_one :: TemplateVmConfig where
  "config_one =
     \<lparr>Root = ''/t/template-vm-0123456789'', Name = ''template-vm-0123456789'',
      Driver = ''kvm'', Kernel = ''/boot/vmlinuz'', Initrd = ''/boot/initrd.img'',
      Cpu = 1, Memory = 128\<rparr>"

text \<open>
  A driver whose clone fails once the template's root is gone and whose release fails
  when there is nothing left to release, and over it a \<^verbatim>\<open>template\<close> package that cannot
  create templates.
\<close>

definition drv_one :: "(unit, nat) Driver" where
  "drv_one =
     \<lparr>cloneFromTemplate = (\<lambda>c vmName w.
        if fsys w (Root c) = StatOK then (Inr 0, w) else (Inl (Error ''no template state''), w)),
      destroyTemplate = (\<lambda>c w.
        if fsys w (Root c) = StatOK
        then (None, w\<lparr>entries := entries w - {Root c},
                       fsys := (fsys w)(Root c := ErrNotExist)\<rparr>)
        else (Some (Error ''no template state''), w))\<rparr>"

definition pkg_failing :: "(unit, nat) template_pkg" where
  "pkg_failing =
     spec_template
       (\<lambda>path vmName cpu mem kern initrd bios cbfs w. ((None, Some (Error ''no hypervisor'')), w))
       drv_one"

text \<open>
  A daemon whose template directory \<^verbatim>\<open>/t/template-vm-0123456789\<close> holds the descriptor
  above and whose only driver is \<^verbatim>\<open>kvm\<close> (also probed when no driver is named).
\<close>

definition daemon_one :: "string daemon" where
  "daemon_one =
     \<lparr>loadConfig = (\<lambda>dir. if dir = ''/t/template-vm-0123456789'' then Decoded (Some config_one)
                            else OpenFailed (Error ''no such file or directory'')),
      Probe = (\<lambda>d. if d = ''kvm'' \<or> d = '''' then Inr ''kvm''
                    else Inl (Error ''unsupported driver''))\<rparr>"

definition flags :: "string \<Rightarrow> string \<Rightarrow> string \<Rightarrow> string \<Rightarrow> cli_Context" where
  "flags d k i t =
     \<lparr>GlobalString = (\<lambda>name. if name = ''driver'' then d else if name = ''kernel'' then k
                              else if name = ''initrd'' then i
                              else if name = ''template'' then t else '''')\<rparr>"

section \<open>Properties\<close>

subsection \<open>The name loop\<close>

text \<open>
  With the kind \<^verbatim>\<open>"alpha"\<close>, \<^verbatim>\<open>RandStr\<close> never panics: a candidate is always drawn, from
  the next 10 bytes of the random source, and drawing it changes nothing but the
  position in that source.
\<close>

lemma dictionary_alpha:
  "dictionary ''alpha'' = ''ABCDEFGHIJKLMNOPQRSTUVWXYZabcdefghijklmnopqrstuvwxyz''"
  by (simp add: dictionary_def)

lemma length_dictionary_alpha: "length (dictionary ''alpha'') = 52"
  by (simp add: dictionary_alpha)

lemma RandStr_alpha:
  "RandStr n ''alpha'' w =
     (Some (map (\<lambda>k. dictionary ''alpha'' ! (rnd w (rpos w + k) mod 256 mod 52)) [0..<n]),
      w\<lparr>rpos := rpos w + n\<rparr>)"
proof -
  have "dictionary ''alpha'' \<noteq> []" by (simp add: dictionary_alpha)
  then show ?thesis by (simp add: RandStr_def Let_def length_dictionary_alpha)
qed

lemma candidate_Some:
  "candidate w =
     Some (''template-vm-'' @
             map (\<lambda>k. dictionary ''alpha'' ! (rnd w (rpos w + k) mod 256 mod 52)) [0..<10],
           w\<lparr>rpos := rpos w + 10\<rparr>)"
  by (simp add: candidate_def RandStr_alpha)

lemma drawn_0: "drawn 0 w = w"
  by (simp add: drawn_def)

lemma drawn_Suc: "drawn (Suc k) w = drawn k (w\<lparr>rpos := rpos w + 10\<rparr>)"
  by (simp add: drawn_def)

lemma drawn_entries: "entries (drawn k w) = entries w"
  by (simp add: drawn_def)

lemma drawn_fsys: "fsys (drawn k w) = fsys w"
  by (simp add: drawn_def)

lemma drawn_rnd: "rnd (drawn k w) = rnd w"
  by (simp add: drawn_def)

lemma drawn_rpos: "rpos (drawn k w) = rpos w + 10 * k"
  by (simp add: drawn_def)

lemma candidate_next:
  "\<exists>vmName. candidate w = Some (vmName, w\<lparr>rpos := rpos w + 10\<rparr>)"
  by (simp add: candidate_Some)

lemma candidate_drawn:
  "\<exists>vmName. candidate (drawn k w) = Some (vmName, drawn (Suc k) w)"
  by (simp add: candidate_Some drawn_def)

lemma freeAt_Suc:
  "freeAt templateRoot w (Suc k) = freeAt templateRoot (w\<lparr>rpos := rpos w + 10\<rparr>) k"
  by (simp add: freeAt_def drawn_Suc)

text \<open>
  The loop, one pass at a time: it leaves at the first candidate whose path is reported
  as not existing, and returns only if there is one.
\<close>

lemma pickVmName_step:
  "pickVmName templateRoot w =
     (if freeAt templateRoot w 0 then candidate w
      else pickVmName templateRoot (w\<lparr>rpos := rpos w + 10\<rparr>))"
proof -
  obtain n where c: "candidate w = Some (n, w\<lparr>rpos := rpos w + 10\<rparr>)"
    using candidate_next by blast
  show ?thesis
    by (subst pickVmName.simps) (simp add: c freeAt_def drawn_0)
qed

lemma pickVmName_skip:
  "\<forall>j<k. \<not> freeAt templateRoot w j \<Longrightarrow>
     pickVmName templateRoot w = pickVmName templateRoot (drawn k w)"
proof (induction k arbitrary: w)
  case 0
  then show ?case by (simp add: drawn_0)
next
  case (Suc k)
  from Suc.prems have first: "\<not> freeAt templateRoot w 0" by simp
  have rest: "\<forall>j<k. \<not> freeAt templateRoot (w\<lparr>rpos := rpos w + 10\<rparr>) j"
  proof (intro allI impI)
    fix j assume "j < k"
    then have "\<not> freeAt templateRoot w (Suc j)" using Suc.prems by simp
    then show "\<not> freeAt templateRoot (w\<lparr>rpos := rpos w + 10\<rparr>) j" by (simp add: freeAt_Suc)
  qed
  have "pickVmName templateRoot w = pickVmName templateRoot (w\<lparr>rpos := rpos w + 10\<rparr>)"
    using first by (subst pickVmName_step) simp
  also have "\<dots> = pickVmName templateRoot (drawn k (w\<lparr>rpos := rpos w + 10\<rparr>))"
    by (rule Suc.IH [OF rest])
  finally show ?case by (simp only: drawn_Suc)
qed

lemma freeAt_drawn: "freeAt templateRoot (drawn k w) 0 = freeAt templateRoot w k"
  by (simp add: freeAt_def drawn_0)

lemma pickVmName_first_free:
  assumes "freeAt templateRoot w k" and "\<forall>j<k. \<not> freeAt templateRoot w j"
  shows "pickVmName templateRoot w = candidate (drawn k w)"
proof -
  have "pickVmName templateRoot w = pickVmName templateRoot (drawn k w)"
    by (rule pickVmName_skip [OF assms(2)])
  also have "\<dots> = candidate (drawn k w)"
    using assms(1) by (subst pickVmName_step) (simp add: freeAt_drawn)
  finally show ?thesis .
qed

lemma pickVmName_Some_free:
  assumes "pickVmName templateRoot w = Some y"
  shows "\<exists>k. freeAt templateRoot w k"
proof (rule pickVmName.raw_induct [where P = "\<lambda>r v y. \<exists>k. freeAt r v k", OF _ assms])
  fix f :: "string \<Rightarrow> 'a world_scheme \<Rightarrow> (string \<times> 'a world_scheme) option"
  fix r v y
  assume IH: "\<And>r v y. f r v = Some y \<Longrightarrow> \<exists>k. freeAt r v k"
  assume eq: "(case candidate v of
        None \<Rightarrow> None
      | Some (vmName, w') \<Rightarrow>
          if IsNotExist (Stat w' (candidatePath r vmName)) then Some (vmName, w')
          else f r w') = Some y"
  obtain n where c: "candidate v = Some (n, v\<lparr>rpos := rpos v + 10\<rparr>)"
    using candidate_next by blast
  show "\<exists>k. freeAt r v k"
  proof (cases "IsNotExist (Stat (v\<lparr>rpos := rpos v + 10\<rparr>) (candidatePath r n))")
    case True
    with c have "freeAt r v 0" by (simp add: freeAt_def drawn_0)
    then show ?thesis ..
  next
    case False
    with c eq have "f r (v\<lparr>rpos := rpos v + 10\<rparr>) = Some y" by simp
    then obtain k where "freeAt r (v\<lparr>rpos := rpos v + 10\<rparr>) k" using IH by blast
    then have "freeAt r v (Suc k)" by (simp add: freeAt_Suc)
    then show ?thesis ..
  qed
qed

lemma pickVmName_never_free:
  assumes "\<forall>k. \<not> freeAt templateRoot w k"
  shows "pickVmName templateRoot w = None"
proof (cases "pickVmName templateRoot w")
  case None
  then show ?thesis .
next
  case (Some y)
  then have "\<exists>k. freeAt templateRoot w k" by (rule pickVmName_Some_free)
  with assms show ?thesis by simp
qed

lemma least_free:
  assumes "freeAt templateRoot w k"
  shows "\<exists>m. freeAt templateRoot w m \<and> (\<forall>j<m. \<not> freeAt templateRoot w j)"
proof -
  define m where "m = (LEAST i. freeAt templateRoot w i)"
  have "freeAt templateRoot w m" unfolding m_def using assms by (rule LeastI)
  moreover have "\<not> freeAt templateRoot w j" if "j < m" for j
    using that unfolding m_def by (rule not_less_Least)
  ultimately show ?thesis by blast
qed

lemma pickVmName_returns_iff:
  "(pickVmName templateRoot w \<noteq> None) = (\<exists>k. freeAt templateRoot w k)"
proof
  assume "pickVmName templateRoot w \<noteq> None"
  then obtain y where "pickVmName templateRoot w = Some y"
    by (cases "pickVmName templateRoot w") simp_all
  then show "\<exists>k. freeAt templateRoot w k" by (rule pickVmName_Some_free)
next
  assume "\<exists>k. freeAt templateRoot w k"
  then obtain k where "freeAt templateRoot w k" ..
  then obtain m where "freeAt templateRoot w m" and "\<forall>j<m. \<not> freeAt templateRoot w j"
    using least_free by blast
  then have "pickVmName templateRoot w = candidate (drawn m w)"
    by (rule pickVmName_first_free)
  moreover obtain n where "candidate (drawn m w) = Some (n, drawn (Suc m) w)"
    using candidate_drawn by blast
  ultimately show "pickVmName templateRoot w \<noteq> None" by simp
qed

lemma pickVmName_result:
  assumes "pickVmName templateRoot w = Some (vmName, w')"
  shows "\<exists>k. freeAt templateRoot w k \<and> (\<forall>j<k. \<not> freeAt templateRoot w j) \<and>
             candidate (drawn k w) = Some (vmName, w') \<and> w' = drawn (Suc k) w"
proof -
  from assms obtain k where "freeAt templateRoot w k"
    using pickVmName_Some_free by blast
  then obtain m where fm: "freeAt templateRoot w m" and lm: "\<forall>j<m. \<not> freeAt templateRoot w j"
    using least_free by blast
  from fm lm have "pickVmName templateRoot w = candidate (drawn m w)"
    by (rule pickVmName_first_free)
  with assms have c: "candidate (drawn m w) = Some (vmName, w')" by simp
  moreover obtain n where "candidate (drawn m w) = Some (n, drawn (Suc m) w)"
    using candidate_drawn by blast
  ultimately have "w' = drawn (Suc m) w" by simp
  with fm lm c show ?thesis by blast
qed

text \<open>
  The letters are alphanumeric characters, and every identifier of 10 letters is the
  one some random source selects.
\<close>

lemma alpha_in_alphanum: "set (dictionary ''alpha'') \<subseteq> set (dictionary ''alphanum'')"
  by (simp add: dictionary_def)

lemma alpha_index:
  assumes "c \<in> set (dictionary ''alpha'')"
  shows "(LEAST j. dictionary ''alpha'' ! j = c) < 52 \<and>
         dictionary ''alpha'' ! (LEAST j. dictionary ''alpha'' ! j = c) = c"
proof -
  from assms obtain j where j: "j < length (dictionary ''alpha'')" "dictionary ''alpha'' ! j = c"
    by (auto simp: in_set_conv_nth)
  have "dictionary ''alpha'' ! (LEAST j. dictionary ''alpha'' ! j = c) = c"
    using j(2) by (rule LeastI)
  moreover have "(LEAST j. dictionary ''alpha'' ! j = c) \<le> j"
    using j(2) by (rule Least_le)
  ultimately show ?thesis using j(1) by (simp add: length_dictionary_alpha)
qed

lemma candidate_rnd_update:
  "candidate (w\<lparr>rnd := r\<rparr>) =
     Some (''template-vm-'' @
             map (\<lambda>k. dictionary ''alpha'' ! (r (rpos w + k) mod 256 mod 52)) [0..<10],
           w\<lparr>rnd := r, rpos := rpos w + 10\<rparr>)"
proof -
  have e: "(\<lambda>k. dictionary ''alpha'' !
              (rnd (w\<lparr>rnd := r\<rparr>) (rpos (w\<lparr>rnd := r\<rparr>) + k) mod 256 mod 52)) =
      (\<lambda>k. dictionary ''alpha'' ! (r (rpos w + k) mod 256 mod 52))"
    by simp
  have v: "(w\<lparr>rnd := r\<rparr>)\<lparr>rpos := rpos (w\<lparr>rnd := r\<rparr>) + 10\<rparr> =
      w\<lparr>rnd := r, rpos := rpos w + 10\<rparr>"
    by simp
  show ?thesis by (subst candidate_Some) (simp only: e v)
qed

lemma every_ident_drawn:
  assumes len: "length s = 10" and letters: "set s \<subseteq> set (dictionary ''alpha'')"
  shows "\<exists>r. candidate (w\<lparr>rnd := r\<rparr>) =
           Some (''template-vm-'' @ s, w\<lparr>rnd := r, rpos := rpos w + 10\<rparr>)"
proof -
  define r where "r = (\<lambda>n. LEAST j. dictionary ''alpha'' ! j = s ! (n - rpos w))"
  have pick: "dictionary ''alpha'' ! (r (rpos w + k) mod 256 mod 52) = s ! k" if "k < 10" for k
  proof -
    from that len letters have "s ! k \<in> set (dictionary ''alpha'')" by (auto simp: subset_iff)
    from alpha_index [OF this] show ?thesis by (simp add: r_def)
  qed
  have "map (\<lambda>k. dictionary ''alpha'' ! (r (rpos w + k) mod 256 mod 52)) [0..<10] =
      map (\<lambda>k. s ! k) [0..<10]"
  proof (rule map_cong [OF refl])
    fix k assume "k \<in> set [0..<10]"
    then have "k < 10" by (simp only: set_upt atLeastLessThan_iff)
    then show "dictionary ''alpha'' ! (r (rpos w + k) mod 256 mod 52) = s ! k" by (rule pick)
  qed
  also have "\<dots> = s" using map_nth [of s] by (simp only: len)
  finally have m: "map (\<lambda>k. dictionary ''alpha'' ! (r (rpos w + k) mod 256 mod 52)) [0..<10] = s" .
  have c: "candidate (w\<lparr>rnd := r\<rparr>) =
      Some (''template-vm-'' @ s, w\<lparr>rnd := r, rpos := rpos w + 10\<rparr>)"
    by (subst candidate_rnd_update, subst m, rule refl)
  show ?thesis by (rule exI [where x = r], rule c)
qed

text \<open>
  Claim C8. In every state \<open>w\<close> (so: at every pass of the name loop of \<^verbatim>\<open>New\<close>), the
  candidate is \<^verbatim>\<open>template-vm-\<close> followed by an identifier of exactly 10 characters, the
  ones the next 10 bytes of the random source select among the 52 letters, and those
  10 bytes are consumed; the letters are alphanumeric characters; the candidate's path
  is \<^verbatim>\<open>templateRoot/template-vm-<id>\<close>. The identifier is random: whatever identifier of
  10 letters is named, there is a random source that makes it the candidate.
\<close>

theorem candidate_is_template_vm_ident:
  "(\<exists>ident. candidate w = Some (''template-vm-'' @ ident, w\<lparr>rpos := rpos w + 10\<rparr>) \<and>
      ident = map (\<lambda>k. dictionary ''alpha'' ! (rnd w (rpos w + k) mod 256 mod 52)) [0..<10] \<and>
      length ident = 10 \<and>
      set ident \<subseteq> set (dictionary ''alpha'') \<and>
      candidatePath templateRoot (''template-vm-'' @ ident) =
        templateRoot @ ''/template-vm-'' @ ident) \<and>
   dictionary ''alpha'' = ''ABCDEFGHIJKLMNOPQRSTUVWXYZabcdefghijklmnopqrstuvwxyz'' \<and>
   set (dictionary ''alpha'') \<subseteq> set (dictionary ''alphanum'') \<and>
   (\<forall>s. length s = 10 \<and> set s \<subseteq> set (dictionary ''alpha'') \<longrightarrow>
      (\<exists>r. candidate (w\<lparr>rnd := r\<rparr>) =
         Some (''template-vm-'' @ s, w\<lparr>rnd := r, rpos := rpos w + 10\<rparr>)))"
proof (intro conjI)
  let ?ident = "map (\<lambda>k. dictionary ''alpha'' ! (rnd w (rpos w + k) mod 256 mod 52)) [0..<10]"
  have "dictionary ''alpha'' ! (i mod 52) \<in> set (dictionary ''alpha'')" for i
    by (intro nth_mem) (simp add: length_dictionary_alpha)
  then have letters: "set ?ident \<subseteq> set (dictionary ''alpha'')" by auto
  have path: "candidatePath templateRoot (''template-vm-'' @ ?ident) =
      templateRoot @ ''/template-vm-'' @ ?ident"
    by (simp add: candidatePath_def)
  have len: "length ?ident = 10" by simp
  show "\<exists>ident. candidate w = Some (''template-vm-'' @ ident, w\<lparr>rpos := rpos w + 10\<rparr>) \<and>
      ident = ?ident \<and> length ident = 10 \<and> set ident \<subseteq> set (dictionary ''alpha'') \<and>
      candidatePath templateRoot (''template-vm-'' @ ident) =
        templateRoot @ ''/template-vm-'' @ ident"
    by (rule exI [where x = ?ident], intro conjI, rule candidate_Some, rule refl,
        rule len, rule letters, rule path)
  show "dictionary ''alpha'' = ''ABCDEFGHIJKLMNOPQRSTUVWXYZabcdefghijklmnopqrstuvwxyz''"
    by (rule dictionary_alpha)
  show "set (dictionary ''alpha'') \<subseteq> set (dictionary ''alphanum'')" by (rule alpha_in_alphanum)
  show "\<forall>s. length s = 10 \<and> set s \<subseteq> set (dictionary ''alpha'') \<longrightarrow>
      (\<exists>r. candidate (w\<lparr>rnd := r\<rparr>) =
         Some (''template-vm-'' @ s, w\<lparr>rnd := r, rpos := rpos w + 10\<rparr>))"
  proof (intro allI impI)
    fix s
    assume h: "length s = 10 \<and> set s \<subseteq> set (dictionary ''alpha'')"
    show "\<exists>r. candidate (w\<lparr>rnd := r\<rparr>) =
        Some (''template-vm-'' @ s, w\<lparr>rnd := r, rpos := rpos w + 10\<rparr>)"
      by (rule every_ident_drawn [OF conjunct1 [OF h] conjunct2 [OF h]])
  qed
qed

text \<open>
  The loop on the example root that holds \<^verbatim>\<open>template-vm-ABCDEFGHIJ\<close>: the first
  candidate is taken, the second is returned.
\<close>

lemma candidate_world_retry:
  "candidate world_retry = Some (''template-vm-ABCDEFGHIJ'', world_retry\<lparr>rpos := 10\<rparr>)"
  by (simp add: candidate_Some dictionary_alpha upt_rec) (simp add: world_retry_def)

lemma candidate_world_retry':
  "candidate (world_retry\<lparr>rpos := 10\<rparr>) =
     Some (''template-vm-KLMNOPQRST'', world_retry\<lparr>rpos := 20\<rparr>)"
  by (simp add: candidate_Some dictionary_alpha upt_rec) (simp add: world_retry_def)

lemma world_retry_taken: "\<not> freeAt ''/t'' world_retry 0"
  by (simp add: freeAt_def drawn_0 candidate_world_retry candidatePath_def Stat_def IsNotExist_def)
     (simp add: world_retry_def)

lemma world_retry_free: "freeAt ''/t'' (world_retry\<lparr>rpos := 10\<rparr>) 0"
  by (simp add: freeAt_def drawn_0 candidate_world_retry' candidatePath_def Stat_def IsNotExist_def)
     (simp add: world_retry_def)

lemma rpos_world_retry: "world_retry\<lparr>rpos := rpos world_retry + 10\<rparr> = world_retry\<lparr>rpos := 10\<rparr>"
  by (simp add: world_retry_def)

lemma rpos_world_retry': "world_retry\<lparr>rpos := 10, rpos := rpos (world_retry\<lparr>rpos := 10\<rparr>) + 10\<rparr> = world_retry\<lparr>rpos := 20\<rparr>"
  by (simp add: world_retry_def)

lemma pickVmName_world_retry:
  "pickVmName ''/t'' world_retry = Some (''template-vm-KLMNOPQRST'', world_retry\<lparr>rpos := 20\<rparr>)"
proof -
  have "pickVmName ''/t'' world_retry = pickVmName ''/t'' (world_retry\<lparr>rpos := 10\<rparr>)"
    by (subst pickVmName_step) (simp add: world_retry_taken rpos_world_retry)
  also have "\<dots> = Some (''template-vm-KLMNOPQRST'', world_retry\<lparr>rpos := 20\<rparr>)"
    by (subst pickVmName_step) (simp add: world_retry_free candidate_world_retry')
  finally show ?thesis .
qed

text \<open>
  On that root the bytes 0 to 9 select \<^verbatim>\<open>ABCDEFGHIJ\<close>, and some random source selects
  \<^verbatim>\<open>QwErTyUiOp\<close>.
\<close>

theorem candidate_is_template_vm_ident_witness:
  "candidate world_retry = Some (''template-vm-ABCDEFGHIJ'', world_retry\<lparr>rpos := 10\<rparr>) \<and>
   length ''QwErTyUiOp'' = 10 \<and> set ''QwErTyUiOp'' \<subseteq> set (dictionary ''alpha'') \<and>
   (\<exists>r. candidate (world_retry\<lparr>rnd := r\<rparr>) =
      Some (''template-vm-QwErTyUiOp'', world_retry\<lparr>rnd := r, rpos := rpos world_retry + 10\<rparr>))"
proof -
  have l: "length ''QwErTyUiOp'' = 10 \<and> set ''QwErTyUiOp'' \<subseteq> set (dictionary ''alpha'')"
    by (simp add: dictionary_alpha)
  from candidate_is_template_vm_ident [of world_retry "''/t''", THEN conjunct2, THEN conjunct2,
      THEN conjunct2, THEN spec, of "''QwErTyUiOp''", THEN mp, OF l]
  have "\<exists>r. candidate (world_retry\<lparr>rnd := r\<rparr>) =
      Some (''template-vm-'' @ ''QwErTyUiOp'', world_retry\<lparr>rnd := r, rpos := rpos world_retry + 10\<rparr>)" .
  with l candidate_world_retry show ?thesis by simp
qed

text \<open>
  Claim C2, as amended. The name loop, started in any state (so: at any of N invocations
  in sequence, against any directory), returns exactly when some candidate still to be
  drawn has a path that \<^verbatim>\<open>os.Stat\<close> reports as not existing. The name it returns is
  one whose path \<^verbatim>\<open>os.Stat\<close> reported as not existing, and the loop leaves the
  directory as it found it; so, against a directory none of whose entries \<^verbatim>\<open>os.Stat\<close>
  reports as not existing (no symbolic link with a missing target), the name is never
  in the pre-existing set.
\<close>

theorem pickVmName_leaves_iff_free:
  "((\<exists>vmName w'. pickVmName templateRoot w = Some (vmName, w')) = (\<exists>k. freeAt templateRoot w k)) \<and>
   (\<forall>vmName w'. pickVmName templateRoot w = Some (vmName, w') \<longrightarrow>
      Stat w (candidatePath templateRoot vmName) = ErrNotExist \<and>
      fsys w' = fsys w \<and> entries w' = entries w \<and>
      ((\<forall>p\<in>entries w. Stat w p \<noteq> ErrNotExist) \<longrightarrow>
         candidatePath templateRoot vmName \<notin> entries w))"
proof (intro conjI allI impI)
  show "(\<exists>vmName w'. pickVmName templateRoot w = Some (vmName, w')) = (\<exists>k. freeAt templateRoot w k)"
    using pickVmName_returns_iff [of templateRoot w] by auto
next
  fix vmName w'
  assume ret: "pickVmName templateRoot w = Some (vmName, w')"
  then obtain k where free: "freeAt templateRoot w k"
    and c: "candidate (drawn k w) = Some (vmName, w')" and w': "w' = drawn (Suc k) w"
    using pickVmName_result [of templateRoot w vmName w'] by auto
  from w' show fs: "fsys w' = fsys w" by (simp only: drawn_fsys)
  from w' show "entries w' = entries w" by (simp only: drawn_entries)
  from free c have "IsNotExist (Stat w' (candidatePath templateRoot vmName))"
    by (simp add: freeAt_def)
  with fs show gone: "Stat w (candidatePath templateRoot vmName) = ErrNotExist"
    by (simp add: IsNotExist_def Stat_def)
  assume "\<forall>p\<in>entries w. Stat w p \<noteq> ErrNotExist"
  with gone show "candidatePath templateRoot vmName \<notin> entries w" by blast
qed

text \<open>
  The amended claim on the example root: the second candidate is free, the loop returns
  it, and it is not the entry that was there.
\<close>

theorem pickVmName_leaves_iff_free_witness:
  "freeAt ''/t'' world_retry (Suc 0) \<and>
   pickVmName ''/t'' world_retry = Some (''template-vm-KLMNOPQRST'', world_retry\<lparr>rpos := 20\<rparr>) \<and>
   entries world_retry = {''/t/template-vm-ABCDEFGHIJ''} \<and>
   Stat world_retry ''/t/template-vm-ABCDEFGHIJ'' = StatOK \<and>
   Stat world_retry (candidatePath ''/t'' ''template-vm-KLMNOPQRST'') = ErrNotExist \<and>
   candidatePath ''/t'' ''template-vm-KLMNOPQRST'' \<notin> entries world_retry"
proof -
  have "freeAt ''/t'' world_retry (Suc 0) =
      freeAt ''/t'' (world_retry\<lparr>rpos := rpos world_retry + 10\<rparr>) 0"
    by (rule freeAt_Suc)
  then have f: "freeAt ''/t'' world_retry (Suc 0)"
    by (simp add: rpos_world_retry world_retry_free)
  have d: "entries world_retry = {''/t/template-vm-ABCDEFGHIJ''}"
    and s: "Stat world_retry ''/t/template-vm-ABCDEFGHIJ'' = StatOK"
    by (simp_all add: world_retry_def Stat_def)
  then have e: "\<forall>p\<in>entries world_retry. Stat world_retry p \<noteq> ErrNotExist"
    by simp
  from pickVmName_leaves_iff_free [of "''/t''" world_retry, THEN conjunct2, THEN spec, THEN spec,
      THEN mp, OF pickVmName_world_retry]
  have g: "Stat world_retry (candidatePath ''/t'' ''template-vm-KLMNOPQRST'') = ErrNotExist"
    and "(\<forall>p\<in>entries world_retry. Stat world_retry p \<noteq> ErrNotExist) \<longrightarrow>
      candidatePath ''/t'' ''template-vm-KLMNOPQRST'' \<notin> entries world_retry"
    by simp_all
  with e have n: "candidatePath ''/t'' ''template-vm-KLMNOPQRST'' \<notin> entries world_retry"
    by blast
  from f pickVmName_world_retry d s g n show ?thesis by (intro conjI)
qed

text \<open>
  The loop leaves only on the answer that \<^verbatim>\<open>os.IsNotExist\<close> recognises: where \<^verbatim>\<open>os.Stat\<close>
  fails in any other way for every path, it never returns, whatever the random source
  delivers.
\<close>

lemma pickVmName_stat_error:
  assumes "\<forall>p. fsys w p = ErrOther"
  shows "pickVmName templateRoot w = None"
proof (rule pickVmName_never_free, intro allI)
  fix k
  obtain n where c: "candidate (drawn k w) = Some (n, drawn (Suc k) w)"
    using candidate_drawn by blast
  from assms have "fsys (drawn (Suc k) w) (candidatePath templateRoot n) = ErrOther"
    by (simp only: drawn_fsys)
  with c show "\<not> freeAt templateRoot w k"
    by (simp add: freeAt_def Stat_def IsNotExist_def)
qed

lemma candidate_world_symlink:
  "candidate world_symlink = Some (''template-vm-ABCDEFGHIJ'', world_symlink\<lparr>rpos := 10\<rparr>)"
  by (simp add: candidate_Some dictionary_alpha upt_rec) (simp add: world_symlink_def)

text \<open>
  Claim C2 as stated fails, in both halves. Against a root whose one entry is a symbolic
  link with a missing target, the loop returns the name of that entry, which is in the
  pre-existing set. Against a root that the caller may not search, the loop never
  returns.
\<close>

theorem pickVmName_returns_entry_or_never:
  "pickVmName ''/t'' world_symlink =
     Some (''template-vm-ABCDEFGHIJ'', world_symlink\<lparr>rpos := 10\<rparr>) \<and>
   candidatePath ''/t'' ''template-vm-ABCDEFGHIJ'' \<in> entries world_symlink \<and>
   pickVmName ''/t'' world_denied = None"
proof (intro conjI)
  have "freeAt ''/t'' world_symlink 0"
    by (simp add: freeAt_def drawn_0 candidate_world_symlink candidatePath_def Stat_def
        IsNotExist_def) (simp add: world_symlink_def)
  then show "pickVmName ''/t'' world_symlink =
      Some (''template-vm-ABCDEFGHIJ'', world_symlink\<lparr>rpos := 10\<rparr>)"
    by (subst pickVmName_step) (simp add: candidate_world_symlink)
  show "candidatePath ''/t'' ''template-vm-ABCDEFGHIJ'' \<in> entries world_symlink"
    by (simp add: candidatePath_def world_symlink_def)
  show "pickVmName ''/t'' world_denied = None"
    by (rule pickVmName_stat_error) (simp add: world_denied_def)
qed

text \<open>
  So it is against a root with one entry when the random source keeps delivering the
  bytes of that entry's name.
\<close>

lemma pickVmName_same_name_forever:
  "pickVmName ''/t'' world_taken = None"
proof (rule pickVmName_never_free, intro allI)
  fix k
  have r: "rnd (drawn k world_taken) = (\<lambda>k. 0)"
    by (simp add: drawn_rnd) (simp add: world_taken_def)
  have "candidate (drawn k world_taken) =
      Some (''template-vm-AAAAAAAAAA'', (drawn k world_taken)\<lparr>rpos := rpos (drawn k world_taken) + 10\<rparr>)"
    by (simp add: candidate_Some r dictionary_alpha upt_rec)
  then show "\<not> freeAt ''/t'' world_taken k"
    by (simp add: freeAt_def candidatePath_def Stat_def IsNotExist_def drawn_def)
       (simp add: world_taken_def)
qed

subsection \<open>\<^verbatim>\<open>New\<close>\<close>

text \<open>
  \<^verbatim>\<open>New\<close> returns exactly when its name loop does; what it returns then depends on
  \<^verbatim>\<open>CreateTemplateVM\<close> alone.
\<close>

lemma New_returns_iff:
  "(New pkg templateRoot cpu mem kern initrd w \<noteq> None) = (\<exists>k. freeAt templateRoot w k)"
  unfolding pickVmName_returns_iff [symmetric]
  by (auto simp: New_def split: option.splits prod.splits)

lemma New_returns_template:
  assumes "pickVmName templateRoot w = Some (vmName, w1)"
    and "CreateTemplateVM pkg (candidatePath templateRoot vmName) vmName cpu mem kern initrd
           '''' '''' w1 = ((sp, None), w2)"
  shows "New pkg templateRoot cpu mem kern initrd w = Some (Template \<lparr>tf_s = sp\<rparr>, w2)"
  using assms by (simp add: New_def)

lemma pkg_failing_create:
  "CreateTemplateVM pkg_failing path vmName cpu mem kern initrd bios cbfs w =
     ((None, Some (Error ''no hypervisor'')), w)"
  by (simp add: pkg_failing_def spec_template_def)

text \<open>
  Claim C1. Whenever \<^verbatim>\<open>New\<close> gets as far as calling \<^verbatim>\<open>CreateTemplateVM\<close> (the name
  loop has returned \<open>vmName\<close>) and that call returns an error, whatever the error
  and whatever descriptor comes with it, \<^verbatim>\<open>New\<close> returns the factory
  \<^verbatim>\<open>direct.New(cpu, mem, kernel, initrd)\<close> with the arguments it was given. The error
  goes to the log and nowhere else: the result of \<^verbatim>\<open>New\<close> has no error.
\<close>

theorem New_falls_back_to_direct:
  assumes "pickVmName templateRoot w = Some (vmName, w1)"
    and "CreateTemplateVM pkg (candidatePath templateRoot vmName) vmName cpu mem kern initrd
           '''' '''' w1 = ((sp, Some e), w2)"
  shows "New pkg templateRoot cpu mem kern initrd w =
           Some (direct_New cpu mem kern initrd,
                 w2\<lparr>glog := glog w2 @ [''failed to create template factory: '' @ errmsg e,
                                         ''use direct factory instead'']\<rparr>)"
  using assms by (simp add: New_def)

text \<open>
  On the example root, with a package that cannot create templates: the caller gets the
  direct factory for 1 CPU and 128 MB, and the log holds the two lines.
\<close>

theorem New_falls_back_to_direct_witness:
  "pickVmName ''/t'' world_retry = Some (''template-vm-KLMNOPQRST'', world_retry\<lparr>rpos := 20\<rparr>) \<and>
   CreateTemplateVM pkg_failing (candidatePath ''/t'' ''template-vm-KLMNOPQRST'')
     ''template-vm-KLMNOPQRST'' 1 128 ''/boot/vmlinuz'' ''/boot/initrd.img'' '''' ''''
     (world_retry\<lparr>rpos := 20\<rparr>) =
     ((None, Some (Error ''no hypervisor'')), world_retry\<lparr>rpos := 20\<rparr>) \<and>
   New pkg_failing ''/t'' 1 128 ''/boot/vmlinuz'' ''/boot/initrd.img'' world_retry =
     Some (direct_New 1 128 ''/boot/vmlinuz'' ''/boot/initrd.img'',
           world_retry\<lparr>rpos := 20,
             glog := [''failed to create template factory: no hypervisor'',
                      ''use direct factory instead'']\<rparr>)"
proof -
  have g: "glog (world_retry\<lparr>rpos := 20\<rparr>) = []" by (simp add: world_retry_def)
  show ?thesis
    using New_falls_back_to_direct [OF pickVmName_world_retry pkg_failing_create]
      pickVmName_world_retry
    by (simp add: g pkg_failing_create)
qed

subsection \<open>The methods\<close>

lemma tf_s_update_same: "tf_s t = sp \<Longrightarrow> t\<lparr>tf_s := sp\<rparr> = t"
  by (cases t) simp

lemma clone_gone:
  "NewVmFromTemplate pkg_failing (Some config_one) '''' world_taken =
     (Failed (Error ''no template state''), Some config_one, world_taken)"
  by (simp add: pkg_failing_def spec_template_def spec_NewVmFromTemplate_def drv_one_def
      config_one_def world_taken_def)

text \<open>
  Claim C4. For every template factory \<open>t\<close>, every implementation of the \<^verbatim>\<open>template\<close>
  package and every state: when the clone \<^verbatim>\<open>t.s.NewVmFromTemplate("")\<close> fails with the
  error \<open>e\<close>, \<^verbatim>\<open>GetBaseVm\<close> returns that same error \<open>e\<close> and the state the clone left.
  It returns no VM, so there is no fallback to a direct boot.
\<close>

theorem GetBaseVm_returns_clone_error:
  assumes "NewVmFromTemplate pkg (tf_s t) '''' w = (Failed e, sp', w')"
  shows "GetBaseVm pkg t w = (Failed e, t\<lparr>tf_s := sp'\<rparr>, w')"
  using assms by (simp add: GetBaseVm_def)

text \<open>
  On the example descriptor, once the template's root is gone: the clone's error is the
  result of \<^verbatim>\<open>GetBaseVm\<close>.
\<close>

theorem GetBaseVm_returns_clone_error_witness:
  "NewVmFromTemplate pkg_failing (tf_s \<lparr>tf_s = Some config_one\<rparr>) '''' world_taken =
     (Failed (Error ''no template state''), Some config_one, world_taken) \<and>
   GetBaseVm pkg_failing \<lparr>tf_s = Some config_one\<rparr> world_taken =
     (Failed (Error ''no template state''), \<lparr>tf_s = Some config_one\<rparr>, world_taken)"
proof -
  have h: "NewVmFromTemplate pkg_failing (tf_s \<lparr>tf_s = Some config_one\<rparr>) '''' world_taken =
     (Failed (Error ''no template state''), Some config_one, world_taken)"
    using clone_gone by simp
  from GetBaseVm_returns_clone_error [OF h] h show ?thesis by simp
qed

text \<open>
  With the descriptor's methods as the spec describes them, \<^verbatim>\<open>GetBaseVm\<close> hands the
  factory back as it was, whether the clone succeeds or not, and so does any number of
  calls in a row.
\<close>

lemma Config_spec:
  "Config (spec_template create drv) \<lparr>tf_s = Some c\<rparr> =
     Ok \<lparr>kernelPath = Kernel c, initrdPath = Initrd c, driverName = Driver c,
         cpuCount = Cpu c, memoryMB = Memory c, biosPath = None, cbfsPath = None\<rparr>"
  by (simp add: Config_def spec_template_def spec_BootConfigFromTemplate_def)

lemma spec_NewVmFromTemplate_receiver:
  "fst (snd (spec_NewVmFromTemplate drv sp vmName w)) = sp"
  by (simp add: spec_NewVmFromTemplate_def split: option.splits prod.splits sum.splits)

lemma GetBaseVm_factory: "fst (snd (GetBaseVm (spec_template create drv) t w)) = t"
proof -
  obtain r sp' w' where n: "spec_NewVmFromTemplate drv (tf_s t) '''' w = (r, sp', w')"
    by (cases "spec_NewVmFromTemplate drv (tf_s t) '''' w") auto
  with spec_NewVmFromTemplate_receiver [of drv "tf_s t" "''''" w] have "sp' = tf_s t" by simp
  with n show ?thesis by (simp add: GetBaseVm_def spec_template_def)
qed

lemma GetBaseVm_calls_factory:
  "fst (((\<lambda>(t, w). snd (GetBaseVm (spec_template create drv) t w)) ^^ n) (t, w)) = t"
proof (induction n arbitrary: w)
  case 0
  show ?case by simp
next
  case (Suc n)
  obtain t' w' where s: "snd (GetBaseVm (spec_template create drv) t w) = (t', w')"
    by (cases "snd (GetBaseVm (spec_template create drv) t w)")
  with GetBaseVm_factory [of create drv t w] have "t' = t" by simp
  with s Suc.IH [of w'] show ?case by (simp add: funpow_Suc_right del: funpow.simps)
qed

text \<open>
  Claim C5. For every template factory \<open>t\<close>, every state and every number \<open>n\<close> of
  \<^verbatim>\<open>GetBaseVm\<close> calls in a row (successful or not), \<^verbatim>\<open>Config()\<close> on the factory
  after the calls is the value it was before. \<^verbatim>\<open>Config()\<close> itself reads the descriptor
  and touches nothing: it neither takes nor returns the state of the machine.
\<close>

theorem Config_same_after_GetBaseVm:
  "Config (spec_template create drv)
     (fst (((\<lambda>(t, w). snd (GetBaseVm (spec_template create drv) t w)) ^^ n) (t, w))) =
   Config (spec_template create drv) t"
  by (simp only: GetBaseVm_calls_factory)

text \<open>
  Claim C7. For every descriptor pointer \<open>sp\<close> (valid, stale or nil),
  \<^verbatim>\<open>NewFromExisted\<close> returns the template factory that holds \<open>sp\<close> itself. It is a
  function of \<open>sp\<close> alone: no state of the machine goes in or comes out, so it neither
  creates a template nor looks at the file system or the hypervisor. A descriptor whose
  clone fails shows only at \<^verbatim>\<open>GetBaseVm\<close>, which returns the clone's error.
\<close>

theorem NewFromExisted_attaches_unchecked:
  "NewFromExisted sp = Template \<lparr>tf_s = sp\<rparr> \<and>
   (\<forall>e sp' w'. NewVmFromTemplate pkg sp '''' w = (Failed e, sp', w') \<longrightarrow>
      fst (GetBaseVm pkg \<lparr>tf_s = sp\<rparr> w) = Failed e)"
  by (simp add: NewFromExisted_def GetBaseVm_def)

text \<open>
  On the example descriptor, in a state where the template's root does not exist:
  \<^verbatim>\<open>NewFromExisted\<close> attaches all the same, and \<^verbatim>\<open>GetBaseVm\<close> fails.
\<close>

theorem NewFromExisted_attaches_unchecked_witness:
  "NewFromExisted (Some config_one) = Template \<lparr>tf_s = Some config_one\<rparr> \<and>
   NewVmFromTemplate pkg_failing (Some config_one) '''' world_taken =
     (Failed (Error ''no template state''), Some config_one, world_taken) \<and>
   fst (GetBaseVm pkg_failing \<lparr>tf_s = Some config_one\<rparr> world_taken) =
     Failed (Error ''no template state'')"
  using NewFromExisted_attaches_unchecked [of "Some config_one" pkg_failing world_taken] clone_gone
  by blast

lemma spec_Destroy_Some: "\<exists>w'. spec_Destroy drv (Some c) w = (Ok (), Some c, w')"
  by (simp add: spec_Destroy_def split: prod.splits option.splits)

lemma close_first:
  "CloseFactory pkg_failing \<lparr>tf_s = Some config_one\<rparr> world_one =
     (Ok (), \<lparr>tf_s = Some config_one\<rparr>,
      world_one\<lparr>entries := {},
                fsys := (fsys world_one)(''/t/template-vm-0123456789'' := ErrNotExist)\<rparr>)"
  by (simp add: CloseFactory_def pkg_failing_def spec_template_def spec_Destroy_def drv_one_def
      config_one_def world_one_def)

lemma close_second:
  "CloseFactory pkg_failing \<lparr>tf_s = Some config_one\<rparr>
     (world_one\<lparr>entries := {},
                fsys := (fsys world_one)(''/t/template-vm-0123456789'' := ErrNotExist)\<rparr>) =
     (Ok (), \<lparr>tf_s = Some config_one\<rparr>,
      world_one\<lparr>entries := {},
                fsys := (fsys world_one)(''/t/template-vm-0123456789'' := ErrNotExist),
                glog := [''ResourceReleaseError: no template state'']\<rparr>)"
  by (simp add: CloseFactory_def pkg_failing_def spec_template_def spec_Destroy_def drv_one_def
      config_one_def world_one_def)

text \<open>
  Claim C9. With \<^verbatim>\<open>Destroy\<close> as the spec describes it, for every template factory that
  holds a descriptor: the first \<^verbatim>\<open>CloseFactory\<close> completes and leaves the factory as it
  was, and a second \<^verbatim>\<open>CloseFactory\<close> after it completes too, with no error and no
  panic, whatever the driver reports about the second release.
\<close>

theorem CloseFactory_twice:
  assumes "tf_s t = Some c" and "CloseFactory (spec_template create drv) t w = (r1, t1, w1)"
  shows "r1 = Ok () \<and> t1 = t \<and> fst (CloseFactory (spec_template create drv) t1 w1) = Ok ()"
proof -
  obtain w' where d: "spec_Destroy drv (Some c) w = (Ok (), Some c, w')"
    using spec_Destroy_Some by blast
  with assms have first: "r1 = Ok ()" "t1 = t" "w1 = w'"
    by (auto simp: CloseFactory_def spec_template_def tf_s_update_same)
  obtain w'' where "spec_Destroy drv (Some c) w1 = (Ok (), Some c, w'')"
    using spec_Destroy_Some by blast
  with assms(1) first have "fst (CloseFactory (spec_template create drv) t1 w1) = Ok ()"
    by (simp add: CloseFactory_def spec_template_def)
  with first show ?thesis by simp
qed

text \<open>
  On the example descriptor: the first call removes the template's root; the second
  finds nothing to release, logs the ResourceReleaseError and completes.
\<close>

theorem CloseFactory_twice_witness:
  "tf_s \<lparr>tf_s = Some config_one\<rparr> = Some config_one \<and>
   CloseFactory pkg_failing \<lparr>tf_s = Some config_one\<rparr> world_one =
     (Ok (), \<lparr>tf_s = Some config_one\<rparr>,
      world_one\<lparr>entries := {},
                fsys := (fsys world_one)(''/t/template-vm-0123456789'' := ErrNotExist)\<rparr>) \<and>
   CloseFactory pkg_failing \<lparr>tf_s = Some config_one\<rparr>
     (world_one\<lparr>entries := {},
                fsys := (fsys world_one)(''/t/template-vm-0123456789'' := ErrNotExist)\<rparr>) =
     (Ok (), \<lparr>tf_s = Some config_one\<rparr>,
      world_one\<lparr>entries := {},
                fsys := (fsys world_one)(''/t/template-vm-0123456789'' := ErrNotExist),
                glog := [''ResourceReleaseError: no template state'']\<rparr>)"
proof -
  have s: "tf_s \<lparr>tf_s = Some config_one\<rparr> = Some config_one" by simp
  have p: "pkg_failing = spec_template
       (\<lambda>path vmName cpu mem kern initrd bios cbfs w. ((None, Some (Error ''no hypervisor'')), w))
       drv_one" by (rule pkg_failing_def)
  from CloseFactory_twice [OF s close_first [unfolded p]]
  have "fst (CloseFactory pkg_failing \<lparr>tf_s = Some config_one\<rparr>
     (world_one\<lparr>entries := {},
                fsys := (fsys world_one)(''/t/template-vm-0123456789'' := ErrNotExist)\<rparr>)) = Ok ()"
    by (simp add: p)
  with s close_first close_second show ?thesis by simp
qed

subsection \<open>The daemon\<close>

text \<open>
  The action, case by case: a descriptor that disagrees with the flags, one that agrees,
  no template directory, and a descriptor that cannot be read.
\<close>

lemma mismatch_iff:
  "(\<not> matches_requested ctx tc) =
     ((GlobalString ctx ''driver'' \<noteq> '''' \<and> GlobalString ctx ''driver'' \<noteq> Driver tc) \<or>
      (GlobalString ctx ''kernel'' \<noteq> '''' \<and> GlobalString ctx ''kernel'' \<noteq> Kernel tc) \<or>
      (GlobalString ctx ''initrd'' \<noteq> '''' \<and> GlobalString ctx ''initrd'' \<noteq> Initrd tc))"
  by (auto simp: matches_requested_def)

lemma Action_mismatch:
  assumes t: "GlobalString ctx ''template'' \<noteq> ''''"
    and l: "loadConfig env (GlobalString ctx ''template'') = Decoded (Some tc)"
    and m: "\<not> matches_requested ctx tc"
  shows "Action env ctx =
     (case Probe env (GlobalString ctx ''driver'') of
        Inl err \<Rightarrow>
          ([Log ''template config is not match the driver, kernel or initrd argument, disable template'',
            Probed (GlobalString ctx ''driver''), Log (errmsg err)], Exit 1)
      | Inr hdriver \<Rightarrow>
          ([Log ''template config is not match the driver, kernel or initrd argument, disable template'',
            Probed (GlobalString ctx ''driver'')],
           Serve hdriver
             (factory_NewFromConfigs (GlobalString ctx ''kernel'') (GlobalString ctx ''initrd''))))"
  using t l m [unfolded mismatch_iff]
  by (cases "Probe env (GlobalString ctx ''driver'')") (simp_all add: Action_def Let_def)

lemma Action_match:
  assumes t: "GlobalString ctx ''template'' \<noteq> ''''"
    and l: "loadConfig env (GlobalString ctx ''template'') = Decoded (Some tc)"
    and m: "matches_requested ctx tc"
  shows "Action env ctx =
     (let driver = (if GlobalString ctx ''driver'' = '''' then Driver tc
                    else GlobalString ctx ''driver'') in
      case Probe env driver of
        Inl err \<Rightarrow> ([Probed driver, Log (errmsg err)], Exit 1)
      | Inr hdriver \<Rightarrow>
          ([Probed driver], Serve hdriver (single_New (NewFromExisted (Some tc)))))"
  using t l m
  by (auto simp: Action_def Let_def matches_requested_def split: sum.splits)

lemma Action_no_template:
  assumes t: "GlobalString ctx ''template'' = ''''"
  shows "Action env ctx =
     (if GlobalString ctx ''kernel'' = '''' \<or> GlobalString ctx ''initrd'' = ''''
      then ([Log ''argument kernel and initrd must be set''], Exit 1)
      else (case Probe env (GlobalString ctx ''driver'') of
              Inl err \<Rightarrow> ([Probed (GlobalString ctx ''driver''), Log (errmsg err)], Exit 1)
            | Inr hdriver \<Rightarrow>
                ([Probed (GlobalString ctx ''driver'')],
                 Serve hdriver
                   (factory_NewFromConfigs (GlobalString ctx ''kernel'')
                      (GlobalString ctx ''initrd'')))))"
  using t by (cases "Probe env (GlobalString ctx ''driver'')") (simp_all add: Action_def Let_def)

lemma Action_unreadable:
  assumes t: "GlobalString ctx ''template'' \<noteq> ''''"
    and l: "\<forall>tc. loadConfig env (GlobalString ctx ''template'') \<noteq> Decoded (Some tc)"
  shows "snd (Action env ctx) \<noteq> Serve hdr f"
  using t l by (simp add: Action_def Let_def split: load_result.splits option.splits)

lemma flags_simps:
  "GlobalString (flags d k i t) ''driver'' = d"
  "GlobalString (flags d k i t) ''kernel'' = k"
  "GlobalString (flags d k i t) ''initrd'' = i"
  "GlobalString (flags d k i t) ''template'' = t"
  by (simp_all add: flags_def)

lemma daemon_one_simps:
  "loadConfig daemon_one ''/t/template-vm-0123456789'' = Decoded (Some config_one)"
  "Probe daemon_one ''kvm'' = Inr ''kvm''"
  "Probe daemon_one '''' = Inr ''kvm''"
  "Probe daemon_one ''xen'' = Inl (Error ''unsupported driver'')"
  by (simp_all add: daemon_one_def)

lemma config_one_simps:
  "Driver config_one = ''kvm''"
  "Kernel config_one = ''/boot/vmlinuz''"
  "Initrd config_one = ''/boot/initrd.img''"
  by (simp_all add: config_one_def)

text \<open>
  Claim C3. When a template directory is given and its descriptor is read, and a flag
  \<^verbatim>\<open>driver\<close>, \<^verbatim>\<open>kernel\<close> or \<^verbatim>\<open>initrd\<close> is non-empty and differs from the descriptor's
  field, the daemon logs that the template is disabled, goes on to probe the requested
  driver, and hands \<^verbatim>\<open>factory.NewFromConfigs(kernel, initrd, nil)\<close> of the requested
  kernel and initrd to the supervisor. The mismatch ends nothing: the only exit on this
  path is the one of a failed driver probe.
\<close>

theorem daemon_mismatch_disables_template:
  assumes "GlobalString ctx ''template'' \<noteq> ''''"
    and "loadConfig env (GlobalString ctx ''template'') = Decoded (Some tc)"
    and "(GlobalString ctx ''driver'' \<noteq> '''' \<and> GlobalString ctx ''driver'' \<noteq> Driver tc) \<or>
         (GlobalString ctx ''kernel'' \<noteq> '''' \<and> GlobalString ctx ''kernel'' \<noteq> Kernel tc) \<or>
         (GlobalString ctx ''initrd'' \<noteq> '''' \<and> GlobalString ctx ''initrd'' \<noteq> Initrd tc)"
  shows "Action env ctx =
     (case Probe env (GlobalString ctx ''driver'') of
        Inl err \<Rightarrow>
          ([Log ''template config is not match the driver, kernel or initrd argument, disable template'',
            Probed (GlobalString ctx ''driver''), Log (errmsg err)], Exit 1)
      | Inr hdriver \<Rightarrow>
          ([Log ''template config is not match the driver, kernel or initrd argument, disable template'',
            Probed (GlobalString ctx ''driver'')],
           Serve hdriver
             (factory_NewFromConfigs (GlobalString ctx ''kernel'') (GlobalString ctx ''initrd''))))"
  using assms(1,2) by (rule Action_mismatch) (simp add: mismatch_iff assms(3))

text \<open>
  On the example daemon, with a kernel flag that differs from the descriptor's kernel.
\<close>

theorem daemon_mismatch_disables_template_witness:
  "GlobalString (flags ''kvm'' ''/boot/vmlinuz-new'' ''/boot/initrd.img'' ''/t/template-vm-0123456789'')
     ''template'' \<noteq> '''' \<and>
   loadConfig daemon_one ''/t/template-vm-0123456789'' = Decoded (Some config_one) \<and>
   ''/boot/vmlinuz-new'' \<noteq> Kernel config_one \<and>
   Action daemon_one
     (flags ''kvm'' ''/boot/vmlinuz-new'' ''/boot/initrd.img'' ''/t/template-vm-0123456789'') =
     ([Log ''template config is not match the driver, kernel or initrd argument, disable template'',
       Probed ''kvm''],
      Serve ''kvm'' (factory_NewFromConfigs ''/boot/vmlinuz-new'' ''/boot/initrd.img''))"
  using daemon_mismatch_disables_template
    [of "flags ''kvm'' ''/boot/vmlinuz-new'' ''/boot/initrd.img'' ''/t/template-vm-0123456789''"
        daemon_one config_one]
  by (simp add: flags_simps daemon_one_simps config_one_simps)

text \<open>
  Claim C6. The daemon's choice of the factory. (1) A descriptor that is read and
  matches the requested driver, kernel and initrd, with the driver probe succeeding:
  the factory is exactly \<^verbatim>\<open>Single(NewFromExisted(config))\<close>. (2, 3) A descriptor that
  does not match, or no template directory and both kernel and initrd given, with the
  probe succeeding: the factory is the fresh one from the requested kernel and initrd.
  (4) Whenever the start reaches the supervisor with a factory \<open>f\<close>, \<open>f\<close> is the first
  if a matching descriptor was read and the second if not: one factory, fixed by that
  test.
\<close>

theorem daemon_selects_factory:
  "(GlobalString ctx ''template'' \<noteq> '''' \<and>
    loadConfig env (GlobalString ctx ''template'') = Decoded (Some tc) \<and>
    matches_requested ctx tc \<and>
    Probe env (if GlobalString ctx ''driver'' = '''' then Driver tc
               else GlobalString ctx ''driver'') = Inr hdr
    \<longrightarrow> snd (Action env ctx) = Serve hdr (single_New (NewFromExisted (Some tc)))) \<and>
   (GlobalString ctx ''template'' \<noteq> '''' \<and>
    loadConfig env (GlobalString ctx ''template'') = Decoded (Some tc) \<and>
    \<not> matches_requested ctx tc \<and>
    Probe env (GlobalString ctx ''driver'') = Inr hdr
    \<longrightarrow> snd (Action env ctx) =
          Serve hdr (factory_NewFromConfigs (GlobalString ctx ''kernel'')
                      (GlobalString ctx ''initrd''))) \<and>
   (GlobalString ctx ''template'' = '''' \<and>
    GlobalString ctx ''kernel'' \<noteq> '''' \<and> GlobalString ctx ''initrd'' \<noteq> '''' \<and>
    Probe env (GlobalString ctx ''driver'') = Inr hdr
    \<longrightarrow> snd (Action env ctx) =
          Serve hdr (factory_NewFromConfigs (GlobalString ctx ''kernel'')
                      (GlobalString ctx ''initrd''))) \<and>
   (snd (Action env ctx) = Serve hdr f
    \<longrightarrow> (\<exists>c. GlobalString ctx ''template'' \<noteq> '''' \<and>
             loadConfig env (GlobalString ctx ''template'') = Decoded (Some c) \<and>
             matches_requested ctx c \<and> f = single_New (NewFromExisted (Some c))) \<or>
        (\<not> (\<exists>c. GlobalString ctx ''template'' \<noteq> '''' \<and>
                loadConfig env (GlobalString ctx ''template'') = Decoded (Some c) \<and>
                matches_requested ctx c) \<and>
         f = factory_NewFromConfigs (GlobalString ctx ''kernel'') (GlobalString ctx ''initrd'')))"
proof (intro conjI impI)
  assume "GlobalString ctx ''template'' \<noteq> '''' \<and>
    loadConfig env (GlobalString ctx ''template'') = Decoded (Some tc) \<and>
    matches_requested ctx tc \<and>
    Probe env (if GlobalString ctx ''driver'' = '''' then Driver tc
               else GlobalString ctx ''driver'') = Inr hdr"
  then show "snd (Action env ctx) = Serve hdr (single_New (NewFromExisted (Some tc)))"
    by (simp add: Action_match Let_def)
next
  assume "GlobalString ctx ''template'' \<noteq> '''' \<and>
    loadConfig env (GlobalString ctx ''template'') = Decoded (Some tc) \<and>
    \<not> matches_requested ctx tc \<and>
    Probe env (GlobalString ctx ''driver'') = Inr hdr"
  then show "snd (Action env ctx) =
      Serve hdr (factory_NewFromConfigs (GlobalString ctx ''kernel'') (GlobalString ctx ''initrd''))"
    by (simp add: Action_mismatch)
next
  assume "GlobalString ctx ''template'' = '''' \<and>
    GlobalString ctx ''kernel'' \<noteq> '''' \<and> GlobalString ctx ''initrd'' \<noteq> '''' \<and>
    Probe env (GlobalString ctx ''driver'') = Inr hdr"
  then show "snd (Action env ctx) =
      Serve hdr (factory_NewFromConfigs (GlobalString ctx ''kernel'') (GlobalString ctx ''initrd''))"
    by (simp add: Action_no_template)
next
  assume s: "snd (Action env ctx) = Serve hdr f"
  let ?attached = "\<exists>c. GlobalString ctx ''template'' \<noteq> '''' \<and>
             loadConfig env (GlobalString ctx ''template'') = Decoded (Some c) \<and>
             matches_requested ctx c"
  let ?fresh = "factory_NewFromConfigs (GlobalString ctx ''kernel'') (GlobalString ctx ''initrd'')"
  show "(\<exists>c. GlobalString ctx ''template'' \<noteq> '''' \<and>
             loadConfig env (GlobalString ctx ''template'') = Decoded (Some c) \<and>
             matches_requested ctx c \<and> f = single_New (NewFromExisted (Some c))) \<or>
        (\<not> ?attached \<and> f = ?fresh)"
  proof (cases "GlobalString ctx ''template'' = ''''")
    case True
    with s have "f = ?fresh"
      by (simp add: Action_no_template split: if_splits sum.splits)
    with True show ?thesis by simp
  next
    case False
    show ?thesis
    proof (cases "\<exists>c. loadConfig env (GlobalString ctx ''template'') = Decoded (Some c)")
      case no: False
      then have "snd (Action env ctx) \<noteq> Serve hdr f"
        using False by (intro Action_unreadable) simp_all
      with s show ?thesis by simp
    next
      case True
      then obtain c where c: "loadConfig env (GlobalString ctx ''template'') = Decoded (Some c)" ..
      show ?thesis
      proof (cases "matches_requested ctx c")
        case True
        with s False c have "f = single_New (NewFromExisted (Some c))"
          by (simp add: Action_match Let_def split: sum.splits)
        with False c True show ?thesis by blast
      next
        case nm: False
        with s False c have "f = ?fresh"
          by (simp add: Action_mismatch split: sum.splits)
        with c nm show ?thesis by auto
      qed
    qed
  qed
qed

text \<open>
  On the example daemon: the matching descriptor, the descriptor with another kernel
  requested, and no template directory.
\<close>

theorem daemon_selects_factory_witness:
  "matches_requested (flags '''' '''' '''' ''/t/template-vm-0123456789'') config_one \<and>
   snd (Action daemon_one (flags '''' '''' '''' ''/t/template-vm-0123456789'')) =
     Serve ''kvm'' (single_New (NewFromExisted (Some config_one))) \<and>
   \<not> matches_requested (flags '''' ''/boot/vmlinuz-new'' '''' ''/t/template-vm-0123456789'')
       config_one \<and>
   snd (Action daemon_one (flags '''' ''/boot/vmlinuz-new'' '''' ''/t/template-vm-0123456789'')) =
     Serve ''kvm'' (factory_NewFromConfigs ''/boot/vmlinuz-new'' '''') \<and>
   snd (Action daemon_one (flags ''kvm'' ''/boot/vmlinuz'' ''/boot/initrd.img'' '''')) =
     Serve ''kvm'' (factory_NewFromConfigs ''/boot/vmlinuz'' ''/boot/initrd.img'')"
proof -
  let ?attach = "flags '''' '''' '''' ''/t/template-vm-0123456789''"
  let ?differ = "flags '''' ''/boot/vmlinuz-new'' '''' ''/t/template-vm-0123456789''"
  let ?fresh = "flags ''kvm'' ''/boot/vmlinuz'' ''/boot/initrd.img'' ''''"
  have m: "matches_requested ?attach config_one"
    by (simp add: matches_requested_def flags_simps)
  have n: "\<not> matches_requested ?differ config_one"
    by (simp add: matches_requested_def flags_simps config_one_simps)
  have "snd (Action daemon_one ?attach) =
      Serve ''kvm'' (single_New (NewFromExisted (Some config_one)))"
    by (rule daemon_selects_factory [of ?attach daemon_one config_one "''kvm''",
          THEN conjunct1, THEN mp])
       (simp add: m flags_simps daemon_one_simps config_one_simps)
  moreover have "snd (Action daemon_one ?differ) =
      Serve ''kvm'' (factory_NewFromConfigs (GlobalString ?differ ''kernel'')
        (GlobalString ?differ ''initrd''))"
    by (rule daemon_selects_factory [of ?differ daemon_one config_one "''kvm''",
          THEN conjunct2, THEN conjunct1, THEN mp])
       (simp add: n flags_simps daemon_one_simps)
  moreover have "snd (Action daemon_one ?fresh) =
      Serve ''kvm'' (factory_NewFromConfigs (GlobalString ?fresh ''kernel'')
        (GlobalString ?fresh ''initrd''))"
    by (rule daemon_selects_factory [of ?fresh daemon_one config_one "''kvm''",
          THEN conjunct2, THEN conjunct2, THEN conjunct1, THEN mp])
       (simp add: flags_simps daemon_one_simps)
  ultimately show ?thesis using m n by (simp add: flags_simps)
qed

text \<open>
  Claim C10. (1) With no template directory and the kernel or the initrd flag empty, the
  action is one log line and \<^verbatim>\<open>os.Exit(1)\<close>, whatever the daemon's surroundings: no
  driver is probed and no factory is built. (2) With a descriptor that is read and
  matches, and no driver flag, the one driver that is probed is the descriptor's
  \<^verbatim>\<open>Driver\<close>.
\<close>

theorem daemon_exits_or_probes_descriptor_driver:
  "(GlobalString ctx ''template'' = '''' \<and>
    (GlobalString ctx ''kernel'' = '''' \<or> GlobalString ctx ''initrd'' = '''')
    \<longrightarrow> Action env ctx = ([Log ''argument kernel and initrd must be set''], Exit 1)) \<and>
   (GlobalString ctx' ''template'' \<noteq> '''' \<and>
    loadConfig env (GlobalString ctx' ''template'') = Decoded (Some tc) \<and>
    matches_requested ctx' tc \<and> GlobalString ctx' ''driver'' = ''''
    \<longrightarrow> (\<forall>d. (Probed d \<in> set (fst (Action env ctx'))) = (d = Driver tc)))"
proof (intro conjI impI)
  assume "GlobalString ctx ''template'' = '''' \<and>
    (GlobalString ctx ''kernel'' = '''' \<or> GlobalString ctx ''initrd'' = '''')"
  then show "Action env ctx = ([Log ''argument kernel and initrd must be set''], Exit 1)"
    by (simp add: Action_no_template)
next
  assume h: "GlobalString ctx' ''template'' \<noteq> '''' \<and>
    loadConfig env (GlobalString ctx' ''template'') = Decoded (Some tc) \<and>
    matches_requested ctx' tc \<and> GlobalString ctx' ''driver'' = ''''"
  then have "Action env ctx' =
     (case Probe env (Driver tc) of
        Inl err \<Rightarrow> ([Probed (Driver tc), Log (errmsg err)], Exit 1)
      | Inr hdriver \<Rightarrow>
          ([Probed (Driver tc)], Serve hdriver (single_New (NewFromExisted (Some tc)))))"
    by (simp add: Action_match Let_def)
  then show "\<forall>d. (Probed d \<in> set (fst (Action env ctx'))) = (d = Driver tc)"
    by (cases "Probe env (Driver tc)") auto
qed

text \<open>
  On the example daemon: a kernel without an initrd, and the template directory alone.
\<close>

theorem daemon_exits_or_probes_descriptor_driver_witness:
  "Action daemon_one (flags ''kvm'' ''/boot/vmlinuz'' '''' '''') =
     ([Log ''argument kernel and initrd must be set''], Exit 1) \<and>
   matches_requested (flags '''' '''' '''' ''/t/template-vm-0123456789'') config_one \<and>
   Driver config_one = ''kvm'' \<and>
   (\<forall>d. (Probed d \<in> set (fst (Action daemon_one (flags '''' '''' '''' ''/t/template-vm-0123456789''))))
      = (d = ''kvm''))"
proof -
  let ?bare = "flags ''kvm'' ''/boot/vmlinuz'' '''' ''''"
  let ?attach = "flags '''' '''' '''' ''/t/template-vm-0123456789''"
  note both = daemon_exits_or_probes_descriptor_driver [of ?bare daemon_one ?attach config_one]
  have m: "matches_requested ?attach config_one"
    by (simp add: matches_requested_def flags_simps)
  have "Action daemon_one ?bare = ([Log ''argument kernel and initrd must be set''], Exit 1)"
    by (rule both [THEN conjunct1, THEN mp]) (simp add: flags_simps)
  moreover have "\<forall>d. (Probed d \<in> set (fst (Action daemon_one ?attach))) = (d = Driver config_one)"
    by (rule both [THEN conjunct2, THEN mp]) (simp add: m flags_simps daemon_one_simps)
  ultimately show ?thesis using m by (simp add: config_one_simps)
qed

end
